theory Spec2Isabelle
  imports Main "HOL-Library.Sublist"
begin

section \<open>ETF data ingestion: a shallow embedding of the cloud functions\<close>

text \<open>
  The embedding follows \<^verbatim>\<open>cloud_functions/etf_data_ingest/main.py\<close> and
  \<^verbatim>\<open>cloud_functions/first_cloud_function/main.py\<close>.

  \<^item> Python exceptions are values of the type \<open>exn\<close>; a function that may raise returns
    \<open>exn + 'a\<close>, with \<open>Inl\<close> for the raised exception.
  \<^item> The outside world (clock, HTTP client, object store, logger) is an explicit trace of
    events in chronological order. Every function takes the trace so far and returns the
    extended trace.
  \<^item> The behaviour of the collaborators is a parameter \<open>env\<close>: the clock reading, the
    reply of the HTTP client and the outcome of an upload are arbitrary functions of the
    trace so far and of the request, so a theorem for all \<open>env\<close> holds for every
    behaviour of the collaborators.
  \<^item> The text of log messages and the rendering \<open>str(e)\<close> of an exception are not
    modelled: a log event carries its level only, and the \<open>error_message\<close> of an outcome
    holds the exception itself.
  \<^item> \<open>except Exception\<close> catches every value of \<open>exn\<close>; the signals that are not
    subclasses of \<open>Exception\<close> (KeyboardInterrupt, SystemExit) are outside the model.
  \<^item> A JSON number is an integer here: the code never looks at a number except to test
    whether it is zero.
\<close>

subsection \<open>JSON values and the Python operations used on them\<close>

datatype json =
    JNull
  | JBool bool
  | JNum int
  | JStr string
  | JArr "json list"
  | JObj "(string \<times> json) list"

datatype exn =
    ValueError string
  | AlphaVantageError json
  | RequestException string
  | HTTPError nat
  | JSONDecodeError
  | TypeError
  | AttributeError
  | KeyError string
  | NameError string
  | StorageError string

text \<open>\<open>needle in haystack\<close> for two Python strings: substring test.\<close>

fun str_contains :: "string \<Rightarrow> string \<Rightarrow> bool" where
  "str_contains needle [] = (needle = [])"
| "str_contains needle (c # cs) = (prefix needle (c # cs) \<or> str_contains needle cs)"

text \<open>
  \<open>key in data\<close> where \<open>data\<close> is what \<open>response.json()\<close> returned: a key test on a
  dict, a membership test on a list, a substring test on a string, and a TypeError on
  \<open>None\<close>, a bool or a number.
\<close>

fun py_in :: "string \<Rightarrow> json \<Rightarrow> exn + bool" where
  "py_in k (JObj fields) = Inr (k \<in> set (map fst fields))"
| "py_in k (JArr xs) = Inr (JStr k \<in> set xs)"
| "py_in k (JStr s) = Inr (str_contains k s)"
| "py_in k JNull = Inl TypeError"
| "py_in k (JBool b) = Inl TypeError"
| "py_in k (JNum n) = Inl TypeError"

text \<open>\<open>data[key]\<close> with a string key: only a dict can be subscripted by a string.\<close>

fun py_getitem :: "json \<Rightarrow> string \<Rightarrow> exn + json" where
  "py_getitem (JObj fields) k =
     (case map_of fields k of None \<Rightarrow> Inl (KeyError k) | Some v \<Rightarrow> Inr v)"
| "py_getitem j k = Inl TypeError"

text \<open>\<open>data.get(key)\<close>: only a dict has the method; an absent key gives \<open>None\<close>.\<close>

fun py_get :: "json \<Rightarrow> string \<Rightarrow> exn + json option" where
  "py_get (JObj fields) k = Inr (map_of fields k)"
| "py_get j k = Inl AttributeError"

text \<open>Python truthiness of a JSON value.\<close>

fun truthy :: "json \<Rightarrow> bool" where
  "truthy JNull = False"
| "truthy (JBool b) = b"
| "truthy (JNum n) = (n \<noteq> 0)"
| "truthy (JStr s) = (s \<noteq> [])"
| "truthy (JArr xs) = (xs \<noteq> [])"
| "truthy (JObj fields) = (fields \<noteq> [])"

subsection \<open>Clock readings and their formatting\<close>

record datetime =
  year :: nat
  month :: nat
  day :: nat
  hour :: nat
  minute :: nat
  second :: nat
  microsecond :: nat

text \<open>The range of values a Python \<open>datetime\<close> can hold.\<close>

definition valid_datetime :: "datetime \<Rightarrow> bool" where
  "valid_datetime t \<longleftrightarrow>
     1 \<le> year t \<and> year t \<le> 9999 \<and> 1 \<le> month t \<and> month t \<le> 12 \<and>
     1 \<le> day t \<and> day t \<le> 31 \<and> hour t < 24 \<and> minute t < 60 \<and> second t < 60 \<and>
     microsecond t < 1000000"

definition digit :: "nat \<Rightarrow> char" where
  "digit n = char_of (48 + n mod 10)"

text \<open>
  Zero-padded decimal fields of \<open>strftime\<close>: \<open>%m %d %H %M %S\<close> have two digits, \<open>%Y\<close>
  four and \<open>%f\<close> six. They render the fields of a \<open>valid_datetime\<close> exactly.
\<close>

definition pad2 :: "nat \<Rightarrow> string" where
  "pad2 n = [digit (n div 10), digit n]"

definition pad4 :: "nat \<Rightarrow> string" where
  "pad4 n = [digit (n div 1000), digit (n div 100), digit (n div 10), digit n]"

definition pad6 :: "nat \<Rightarrow> string" where
  "pad6 n = [digit (n div 100000), digit (n div 10000), digit (n div 1000),
             digit (n div 100), digit (n div 10), digit n]"

text \<open>\<open>strftime("%Y%m%d_%H%M%S")\<close>\<close>

definition strftime_timestamp :: "datetime \<Rightarrow> string" where
  "strftime_timestamp t =
     pad4 (year t) @ pad2 (month t) @ pad2 (day t) @ ''_'' @
     pad2 (hour t) @ pad2 (minute t) @ pad2 (second t)"

text \<open>\<open>strftime("%Y/%m/%d")\<close>\<close>

definition strftime_date_path :: "datetime \<Rightarrow> string" where
  "strftime_date_path t = pad4 (year t) @ ''/'' @ pad2 (month t) @ ''/'' @ pad2 (day t)"

text \<open>\<open>isoformat()\<close>: the microseconds are printed only when they are not zero.\<close>

definition isoformat :: "datetime \<Rightarrow> string" where
  "isoformat t =
     pad4 (year t) @ ''-'' @ pad2 (month t) @ ''-'' @ pad2 (day t) @ ''T'' @
     pad2 (hour t) @ '':'' @ pad2 (minute t) @ '':'' @ pad2 (second t) @
     (if microsecond t = 0 then [] else ''.'' @ pad6 (microsecond t))"

text \<open>The part of a clock reading that has second-level resolution.\<close>

definition second_level :: "datetime \<Rightarrow> nat \<times> nat \<times> nat \<times> nat \<times> nat \<times> nat" where
  "second_level t = (year t, month t, day t, hour t, minute t, second t)"

subsection \<open>The outside world\<close>

datatype level = INFO | WARNING | ERROR

text \<open>
  \<open>HttpGet url params\<close>: one call of \<open>requests.get\<close> (timeout 30).
  \<open>Upload blob_name metadata data ok\<close>: one call of \<open>blob.upload_from_string\<close> with the
  JSON text of \<open>data\<close> and content type \<open>application/json\<close>; \<open>ok\<close> tells whether the
  object was written.
\<close>

datatype event =
    ClockRead
  | Log level
  | HttpGet string "(string \<times> string) list"
  | Upload string "(string \<times> string) list" json bool

text \<open>
  What \<open>requests.get\<close> does: it raises a \<open>RequestException\<close>, or it returns a response
  with a status code and a body; the body is \<open>None\<close> when \<open>response.json()\<close> cannot
  parse it.
\<close>

datatype http_reply =
    Raises string
  | Response nat "json option"

record env =
  environ :: "string \<Rightarrow> string option"
  storage_client :: "exn option"
  clock :: "event list \<Rightarrow> datetime"
  http :: "event list \<Rightarrow> string \<Rightarrow> (string \<times> string) list \<Rightarrow> http_reply"
  gcs_upload :: "event list \<Rightarrow> string \<Rightarrow> (string \<times> string) list \<Rightarrow> json \<Rightarrow> exn option"

text \<open>Observations on a trace.\<close>

fun http_calls :: "event list \<Rightarrow> (string \<times> (string \<times> string) list) list" where
  "http_calls [] = []"
| "http_calls (HttpGet url params # es) = (url, params) # http_calls es"
| "http_calls (e # es) = http_calls es"

fun uploads :: "event list \<Rightarrow> (string \<times> bool) list" where
  "uploads [] = []"
| "uploads (Upload blob_name metadata data ok # es) = (blob_name, ok) # uploads es"
| "uploads (e # es) = uploads es"

text \<open>The objects that were really written.\<close>

definition written :: "event list \<Rightarrow> string list" where
  "written tr = map fst (filter snd (uploads tr))"

subsection \<open>class AlphaVantageETFIngest\<close>

record self =
  api_key :: string
  base_url :: string
  bucket_name :: string

text \<open>
  \<open>__init__\<close>: \<open>not self.api_key\<close> holds for an unset and for an empty variable.
  \<open>storage.Client()\<close> may raise as well.
\<close>

definition AlphaVantageETFIngest :: "env \<Rightarrow> exn + self" where
  "AlphaVantageETFIngest ev =
     (case environ ev ''ALPHA_VANTAGE_API_KEY'' of
        None \<Rightarrow> Inl (ValueError ''ALPHA_VANTAGE_API_KEY environment variable is required'')
      | Some key \<Rightarrow>
          if key = [] then
            Inl (ValueError ''ALPHA_VANTAGE_API_KEY environment variable is required'')
          else
            (case environ ev ''GCS_BUCKET_NAME'' of
               None \<Rightarrow> Inl (ValueError ''GCS_BUCKET_NAME environment variable is required'')
             | Some bucket \<Rightarrow>
                 if bucket = [] then
                   Inl (ValueError ''GCS_BUCKET_NAME environment variable is required'')
                 else
                   (case storage_client ev of
                      Some e \<Rightarrow> Inl e
                    | None \<Rightarrow>
                        Inr \<lparr>api_key = key,
                             base_url = ''https://www.alphavantage.co/query'',
                             bucket_name = bucket\<rparr>)))"

text \<open>
  The bodies of \<open>get_etf_profile\<close> and \<open>get_etf_holdings\<close> are the same text except for
  the value of the \<open>function\<close> parameter; \<open>alpha_vantage_query\<close> is that body.

  An exception of \<open>requests.get\<close>, \<open>raise_for_status\<close> (status 400 to 599) or
  \<open>response.json()\<close> is logged and raised again; the ValueError for an
  \<open>Error Message\<close> and a TypeError of the \<open>in\<close> test pass through both \<open>except\<close>
  clauses.
\<close>

definition alpha_vantage_query ::
  "string \<Rightarrow> env \<Rightarrow> self \<Rightarrow> string \<Rightarrow> event list \<Rightarrow> (exn + json) \<times> event list" where
  "alpha_vantage_query fn ev slf symb tr =
     (let params = [(''function'', fn), (''symbol'', symb), (''apikey'', api_key slf)];
          tr1 = tr @ [Log INFO];
          tr2 = tr1 @ [HttpGet (base_url slf) params]
      in case http ev tr1 (base_url slf) params of
           Raises msg \<Rightarrow> (Inl (RequestException msg), tr2 @ [Log ERROR])
         | Response code body \<Rightarrow>
             if 400 \<le> code \<and> code < 600 then (Inl (HTTPError code), tr2 @ [Log ERROR])
             else
               (case body of
                  None \<Rightarrow> (Inl JSONDecodeError, tr2 @ [Log ERROR])
                | Some data \<Rightarrow>
                    (case py_in ''Error Message'' data of
                       Inl e \<Rightarrow> (Inl e, tr2)
                     | Inr True \<Rightarrow>
                         (case py_getitem data ''Error Message'' of
                            Inl e \<Rightarrow> (Inl e, tr2)
                          | Inr msg \<Rightarrow> (Inl (AlphaVantageError msg), tr2))
                     | Inr False \<Rightarrow>
                         (case py_in ''Note'' data of
                            Inl e \<Rightarrow> (Inl e, tr2)
                          | Inr True \<Rightarrow>
                              (case py_getitem data ''Note'' of
                                 Inl e \<Rightarrow> (Inl e, tr2)
                               | Inr note \<Rightarrow> (Inr data, tr2 @ [Log WARNING]))
                          | Inr False \<Rightarrow> (Inr data, tr2)))))"

definition get_etf_profile ::
  "env \<Rightarrow> self \<Rightarrow> string \<Rightarrow> event list \<Rightarrow> (exn + json) \<times> event list" where
  "get_etf_profile = alpha_vantage_query ''ETF_PROFILE''"

definition get_etf_holdings ::
  "env \<Rightarrow> self \<Rightarrow> string \<Rightarrow> event list \<Rightarrow> (exn + json) \<times> event list" where
  "get_etf_holdings = alpha_vantage_query ''ETF_HOLDINGS''"

text \<open>
  The f-string that builds the object name in \<open>store_to_gcs\<close>, from the two strings
  obtained from the clock.
\<close>

definition blob_name_of :: "string \<Rightarrow> string \<Rightarrow> string \<Rightarrow> string \<Rightarrow> string" where
  "blob_name_of data_type symb date_path timestamp =
     ''etf_data/'' @ data_type @ ''/'' @ symb @ ''/'' @ date_path @ ''/'' @
     symb @ ''_'' @ data_type @ ''_'' @ timestamp @ ''.json''"

text \<open>
  \<open>store_to_gcs\<close> reads the clock twice, once for \<open>timestamp\<close> and once for
  \<open>date_path\<close>. An exception of the upload is logged and raised again.
\<close>

definition store_to_gcs ::
  "env \<Rightarrow> self \<Rightarrow> json \<Rightarrow> string \<Rightarrow> string \<Rightarrow> event list \<Rightarrow> (exn + string) \<times> event list" where
  "store_to_gcs ev slf data symb data_type tr =
     (let timestamp = strftime_timestamp (clock ev tr);
          tr1 = tr @ [ClockRead];
          date_path = strftime_date_path (clock ev tr1);
          tr2 = tr1 @ [ClockRead];
          blob_name = blob_name_of data_type symb date_path timestamp;
          tr3 = tr2 @ [Log INFO];
          metadata = [(''symbol'', symb), (''data_type'', data_type),
                      (''ingestion_timestamp'', timestamp), (''source'', ''alphavantage'')]
      in case gcs_upload ev tr3 blob_name metadata data of
           None \<Rightarrow>
             (Inr (''gs://'' @ bucket_name slf @ ''/'' @ blob_name),
              tr3 @ [Upload blob_name metadata data True, Log INFO])
         | Some e \<Rightarrow> (Inl e, tr3 @ [Upload blob_name metadata data False, Log ERROR]))"

text \<open>The dict returned by \<open>ingest_etf_data\<close>; an absent key is \<open>None\<close>.\<close>

record outcome =
  symbol :: string
  timestamp :: string
  files_created :: "string list"
  status :: "string option"
  error_message :: "exn option"

text \<open>The two ways out of the \<open>try\<close> block of \<open>ingest_etf_data\<close>.\<close>

definition finish_success :: "outcome \<Rightarrow> event list \<Rightarrow> outcome \<times> event list" where
  "finish_success result tr = (result\<lparr>status := Some ''success''\<rparr>, tr @ [Log INFO])"

definition finish_error :: "outcome \<Rightarrow> exn \<Rightarrow> event list \<Rightarrow> outcome \<times> event list" where
  "finish_error result e tr =
     (result\<lparr>status := Some ''error'', error_message := Some e\<rparr>, tr @ [Log ERROR])"

definition ingest_etf_data ::
  "env \<Rightarrow> self \<Rightarrow> string \<Rightarrow> bool \<Rightarrow> event list \<Rightarrow> outcome \<times> event list" where
  "ingest_etf_data ev slf symb include_holdings tr =
     (let result = \<lparr>symbol = symb, timestamp = isoformat (clock ev tr),
                    files_created = [], status = None, error_message = None\<rparr>;
          tr0 = tr @ [ClockRead, Log INFO]
      in case get_etf_profile ev slf symb tr0 of
           (Inl e, tr1) \<Rightarrow> finish_error result e tr1
         | (Inr profile_data, tr1) \<Rightarrow>
             (case store_to_gcs ev slf profile_data symb ''profile'' tr1 of
                (Inl e, tr2) \<Rightarrow> finish_error result e tr2
              | (Inr profile_path, tr2) \<Rightarrow>
                  (let result1 = result\<lparr>files_created := files_created result @ [profile_path]\<rparr>
                   in if include_holdings then
                        (case get_etf_holdings ev slf symb tr2 of
                           (Inl e, tr3) \<Rightarrow> finish_error result1 e tr3
                         | (Inr holdings_data, tr3) \<Rightarrow>
                             (case store_to_gcs ev slf holdings_data symb ''holdings'' tr3 of
                                (Inl e, tr4) \<Rightarrow> finish_error result1 e tr4
                              | (Inr holdings_path, tr4) \<Rightarrow>
                                  finish_success
                                    (result1\<lparr>files_created :=
                                       files_created result1 @ [holdings_path]\<rparr>) tr4))
                      else finish_success result1 tr2)))"

subsection \<open>The HTTP entry point\<close>

text \<open>
  A request as the handler sees it: \<open>request.method\<close> and the result of
  \<open>request.get_json(silent=True)\<close>, which is \<open>None\<close> for a missing or malformed body.
\<close>

record request =
  req_method :: string
  req_json :: "json option"

datatype client_error = OnlyPost | InvalidJson | SymbolRequired

text \<open>
  The three shapes of the returned dict: \<open>{'error': ...}\<close>, the outcome of
  \<open>ingest_etf_data\<close>, and the dict built by the handler's own \<open>except\<close> clause
  (status \<open>error\<close>, the exception, a timestamp).
\<close>

datatype response_body =
    ErrorBody client_error
  | OutcomeBody outcome
  | FailureBody exn string

definition handler_failure ::
  "env \<Rightarrow> exn \<Rightarrow> event list \<Rightarrow> (response_body \<times> nat) \<times> event list" where
  "handler_failure ev e tr =
     (let tr1 = tr @ [Log ERROR]
      in ((FailureBody e (isoformat (clock ev tr1)), 500), tr1 @ [ClockRead]))"

text \<open>
  \<open>ingest_etf_data\<close> is declared for \<open>symbol: str\<close>. A request whose \<open>symbol\<close> is truthy
  but not a string is passed on by the handler as it is; that run is outside this model,
  and the result is \<open>None\<close> there and nowhere else.
\<close>

definition etf_data_ingest ::
  "env \<Rightarrow> request \<Rightarrow> event list \<Rightarrow> ((response_body \<times> nat) \<times> event list) option" where
  "etf_data_ingest ev req tr =
     (if req_method req \<noteq> ''POST'' then Some ((ErrorBody OnlyPost, 405), tr)
      else
        (case req_json req of
           None \<Rightarrow> Some ((ErrorBody InvalidJson, 400), tr)
         | Some request_json \<Rightarrow>
             if \<not> truthy request_json then Some ((ErrorBody InvalidJson, 400), tr)
             else
               (case py_get request_json ''symbol'' of
                  Inl e \<Rightarrow> Some (handler_failure ev e tr)
                | Inr None \<Rightarrow> Some ((ErrorBody SymbolRequired, 400), tr)
                | Inr (Some v) \<Rightarrow>
                    if \<not> truthy v then Some ((ErrorBody SymbolRequired, 400), tr)
                    else
                      (case py_get request_json ''include_holdings'' of
                         Inl e \<Rightarrow> Some (handler_failure ev e tr)
                       | Inr flag \<Rightarrow>
                           (let include_holdings =
                                  (case flag of None \<Rightarrow> True | Some b \<Rightarrow> truthy b)
                            in case AlphaVantageETFIngest ev of
                                 Inl e \<Rightarrow> Some (handler_failure ev e tr)
                               | Inr ingest \<Rightarrow>
                                   (case v of
                                      JStr symb \<Rightarrow>
                                        (case ingest_etf_data ev ingest symb include_holdings tr of
                                           (result, tr') \<Rightarrow>
                                             Some ((OutcomeBody result,
                                                    if status result = Some ''success''
                                                    then 200 else 500), tr'))
                                    | _ \<Rightarrow> None))))))"

subsection \<open>The scheduled entry point\<close>

text \<open>
  \<open>cloud_event.data\<close> with its two keys, each possibly absent; the symbols are a list
  of strings.
\<close>

record cloud_event_data =
  data_symbols :: "string list option"
  data_include_holdings :: "bool option"

text \<open>The \<open>for\<close> loop, with \<open>results\<close> as the accumulator.\<close>

fun ingest_each ::
  "env \<Rightarrow> self \<Rightarrow> bool \<Rightarrow> string list \<Rightarrow> outcome list \<Rightarrow> event list
     \<Rightarrow> outcome list \<times> event list" where
  "ingest_each ev ingest include_holdings [] results tr = (results, tr)"
| "ingest_each ev ingest include_holdings (symb # rest) results tr =
     (case ingest_etf_data ev ingest symb include_holdings (tr @ [Log INFO]) of
        (result, tr') \<Rightarrow> ingest_each ev ingest include_holdings rest (results @ [result]) tr')"

text \<open>
  The function returns \<open>None\<close> for an empty list, the results otherwise, and raises again
  what the constructor raised.
\<close>

definition etf_data_ingest_scheduled ::
  "env \<Rightarrow> cloud_event_data \<Rightarrow> event list \<Rightarrow> (exn + outcome list option) \<times> event list" where
  "etf_data_ingest_scheduled ev data tr =
     (let symbols = (case data_symbols data of None \<Rightarrow> [] | Some l \<Rightarrow> l);
          include_holdings = (case data_include_holdings data of None \<Rightarrow> True | Some b \<Rightarrow> b)
      in if symbols = [] then (Inr None, tr @ [Log ERROR])
         else
           (case AlphaVantageETFIngest ev of
              Inl e \<Rightarrow> (Inl e, tr @ [Log ERROR])
            | Inr ingest \<Rightarrow>
                (case ingest_each ev ingest include_holdings symbols [] tr of
                   (results, tr') \<Rightarrow> (Inr (Some results), tr' @ [Log INFO]))))"

text \<open>The outcomes a run of the scheduled function returned, if any.\<close>

definition returned_outcomes :: "(exn + outcome list option) \<Rightarrow> outcome list" where
  "returned_outcomes r = (case r of Inr (Some results) \<Rightarrow> results | _ \<Rightarrow> [])"

text \<open>
  The symbols of the profile queries on a trace, in the order of the calls: one entry for
  each call of \<open>requests.get\<close> whose \<open>function\<close> parameter is \<open>ETF_PROFILE\<close>.
\<close>

definition is_profile_query :: "string \<times> (string \<times> string) list \<Rightarrow> bool" where
  "is_profile_query c = (map_of (snd c) ''function'' = Some ''ETF_PROFILE'')"

definition query_symbol :: "string \<times> (string \<times> string) list \<Rightarrow> string" where
  "query_symbol c = (case map_of (snd c) ''symbol'' of None \<Rightarrow> [] | Some s \<Rightarrow> s)"

definition profile_queries :: "event list \<Rightarrow> string list" where
  "profile_queries tr = map query_symbol (filter is_profile_query (http_calls tr))"

subsection \<open>first\_cloud\_function: hello\_http\<close>

text \<open>
  The names bound in the module's global namespace when \<open>hello_http\<close> runs: the names
  every module has, the one imported module and the function itself. A name that is
  neither a local nor a global nor a builtin raises NameError when it is read;
  \<open>requests\<close> is not a builtin.
\<close>

definition first_cloud_function_globals :: "string list" where
  "first_cloud_function_globals =
     [''__name__'', ''__doc__'', ''__package__'', ''__loader__'', ''__spec__'',
      ''__file__'', ''__cached__'', ''__builtins__'', ''functions_framework'', ''hello_http'']"

definition load_global :: "string list \<Rightarrow> string \<Rightarrow> exn + unit" where
  "load_global names n = (if n \<in> set names then Inr () else Inl (NameError n))"

definition hello_http ::
  "string list \<Rightarrow> env \<Rightarrow> request \<Rightarrow> event list \<Rightarrow> (exn + json) \<times> event list" where
  "hello_http names ev req tr =
     (let url = ''https://www.alphavantage.co/query?function=NEWS_SENTIMENT&tickers=AAPL&apikey=demo''
      in case load_global names ''requests'' of
           Inl e \<Rightarrow> (Inl e, tr)
         | Inr u \<Rightarrow>
             (let tr1 = tr @ [HttpGet url []]
              in case http ev tr url [] of
                   Raises msg \<Rightarrow> (Inl (RequestException msg), tr1)
                 | Response code body \<Rightarrow>
                     if 400 \<le> code \<and> code < 600 then (Inl (HTTPError code), tr1)
                     else
                       (case body of
                          None \<Rightarrow> (Inl JSONDecodeError, tr1)
                        | Some data \<Rightarrow>
                            (case py_in ''Error Message'' data of
                               Inl e \<Rightarrow> (Inl e, tr1)
                             | Inr True \<Rightarrow>
                                 (case py_getitem data ''Error Message'' of
                                    Inl e \<Rightarrow> (Inl e, tr1)
                                  | Inr msg \<Rightarrow> (Inl (AlphaVantageError msg), tr1))
                             | Inr False \<Rightarrow> (Inr data, tr1)))))"

subsection \<open>Concrete environments\<close>

definition sample_time :: datetime where
  "sample_time = \<lparr>year = 2024, month = 3, day = 15, hour = 9, minute = 30, second = 5,
                  microsecond = 0\<rparr>"

definition sample_environ :: "string \<Rightarrow> string option" where
  "sample_environ k =
     (if k = ''ALPHA_VANTAGE_API_KEY'' then Some ''demo''
      else if k = ''GCS_BUCKET_NAME'' then Some ''etf-bucket'' else None)"

definition sample_self :: self where
  "sample_self = \<lparr>api_key = ''demo'', base_url = ''https://www.alphavantage.co/query'',
                  bucket_name = ''etf-bucket''\<rparr>"

definition sample_payload :: json where
  "sample_payload = JObj [(''net_assets'', JStr ''1'')]"

definition error_payload :: json where
  "error_payload = JObj [(''Error Message'', JStr ''Invalid API call'')]"

text \<open>
  Every query is answered with a valid payload, except for the symbol \<open>BAD\<close>, which gets
  an \<open>Error Message\<close> inside a 200 response; every upload succeeds.
\<close>

definition sample_http :: "event list \<Rightarrow> string \<Rightarrow> (string \<times> string) list \<Rightarrow> http_reply" where
  "sample_http tr url params =
     (if map_of params ''symbol'' = Some ''BAD'' then Response 200 (Some error_payload)
      else Response 200 (Some sample_payload))"

definition sample_env :: env where
  "sample_env = \<lparr>environ = sample_environ, storage_client = None,
                 clock = (\<lambda>tr. sample_time), http = sample_http,
                 gcs_upload = (\<lambda>tr blob_name metadata data. None)\<rparr>"

text \<open>As \<open>sample_env\<close>, but uploads of holdings fail.\<close>

definition holdings_upload_fails ::
  "event list \<Rightarrow> string \<Rightarrow> (string \<times> string) list \<Rightarrow> json \<Rightarrow> exn option" where
  "holdings_upload_fails tr blob_name metadata data =
     (if map_of metadata ''data_type'' = Some ''holdings''
      then Some (StorageError ''quota'') else None)"

text \<open>As \<open>sample_env\<close>, but every upload fails.\<close>

definition upload_fails ::
  "event list \<Rightarrow> string \<Rightarrow> (string \<times> string) list \<Rightarrow> json \<Rightarrow> exn option" where
  "upload_fails tr blob_name metadata data = Some (StorageError ''quota'')"

definition failing_store_env :: env where
  "failing_store_env = sample_env\<lparr>gcs_upload := upload_fails\<rparr>"

definition failing_holdings_store_env :: env where
  "failing_holdings_store_env = sample_env\<lparr>gcs_upload := holdings_upload_fails\<rparr>"

definition note_payload :: json where
  "note_payload = JObj [(''Note'', JStr ''rate limit reached''), (''net_assets'', JStr ''1'')]"

text \<open>As \<open>sample_env\<close>, but every reply carries a \<open>Note\<close>.\<close>

definition note_env :: env where
  "note_env = sample_env\<lparr>http := (\<lambda>tr url params. Response 200 (Some note_payload))\<rparr>"

text \<open>One second after \<open>sample_time\<close>.\<close>

definition later_time :: datetime where
  "later_time = sample_time\<lparr>second := 6\<rparr>"

subsection \<open>Notions used to state the properties\<close>

text \<open>The two final shapes of the dict returned by \<open>ingest_etf_data\<close>.\<close>

definition failed :: "env \<Rightarrow> string \<Rightarrow> string list \<Rightarrow> exn \<Rightarrow> event list \<Rightarrow> outcome" where
  "failed ev symb files e tr =
     \<lparr>symbol = symb, timestamp = isoformat (clock ev tr), files_created = files,
      status = Some ''error'', error_message = Some e\<rparr>"

definition succeeded :: "env \<Rightarrow> string \<Rightarrow> string list \<Rightarrow> event list \<Rightarrow> outcome" where
  "succeeded ev symb files tr =
     \<lparr>symbol = symb, timestamp = isoformat (clock ev tr), files_created = files,
      status = Some ''success'', error_message = None\<rparr>"

text \<open>The two queries \<open>ingest_etf_data\<close> can issue for a symbol.\<close>

definition profile_query :: "self \<Rightarrow> string \<Rightarrow> string \<times> (string \<times> string) list" where
  "profile_query slf symb =
     (base_url slf, [(''function'', ''ETF_PROFILE''), (''symbol'', symb), (''apikey'', api_key slf)])"

definition holdings_query :: "self \<Rightarrow> string \<Rightarrow> string \<times> (string \<times> string) list" where
  "holdings_query slf symb =
     (base_url slf, [(''function'', ''ETF_HOLDINGS''), (''symbol'', symb), (''apikey'', api_key slf)])"

text \<open>
  A storage location of the given kind for the given symbol in the bucket of \<open>slf\<close>.
\<close>

definition location_of :: "self \<Rightarrow> string \<Rightarrow> string \<Rightarrow> string \<Rightarrow> bool" where
  "location_of slf data_type symb p \<longleftrightarrow>
     prefix (''gs://'' @ bucket_name slf @ ''/etf_data/'' @ data_type @ ''/'' @ symb @ ''/'') p"

text \<open>
  A list of locations with at most two entries, the profile location first and the
  holdings location second.
\<close>

fun profile_then_holdings :: "self \<Rightarrow> string \<Rightarrow> string list \<Rightarrow> bool" where
  "profile_then_holdings slf symb [] = True"
| "profile_then_holdings slf symb [p] = location_of slf ''profile'' symb p"
| "profile_then_holdings slf symb [p, h] =
     (location_of slf ''profile'' symb p \<and> location_of slf ''holdings'' symb h)"
| "profile_then_holdings slf symb (p # h # x # xs) = False"

text \<open>
  The object name \<open>store_to_gcs\<close> computes when both of its clock readings are \<open>t\<close>.
\<close>

definition storage_key :: "string \<Rightarrow> string \<Rightarrow> datetime \<Rightarrow> string" where
  "storage_key data_type symb t =
     blob_name_of data_type symb (strftime_date_path t) (strftime_timestamp t)"

section \<open>Properties\<close>

subsection \<open>Observations distribute over the trace\<close>

lemma http_calls_append: "http_calls (a @ b) = http_calls a @ http_calls b"
  by (induction a rule: http_calls.induct) simp_all

lemma uploads_append: "uploads (a @ b) = uploads a @ uploads b"
  by (induction a rule: uploads.induct) simp_all

lemma written_append: "written (a @ b) = written a @ written b"
  by (simp add: written_def uploads_append)

lemma profile_queries_append: "profile_queries (a @ b) = profile_queries a @ profile_queries b"
  by (simp add: profile_queries_def http_calls_append)

lemma uploads_log [simp]: "uploads (tr @ [Log l]) = uploads tr"
  by (simp add: uploads_append)

lemma http_calls_log [simp]: "http_calls (tr @ [Log l]) = http_calls tr"
  by (simp add: http_calls_append)

lemma uploads_start [simp]: "uploads (tr @ [ClockRead, Log l]) = uploads tr"
  by (simp add: uploads_append)

lemma http_calls_start [simp]: "http_calls (tr @ [ClockRead, Log l]) = http_calls tr"
  by (simp add: http_calls_append)

subsection \<open>What one fetch and one store add to the trace\<close>

lemma query_http_calls:
  "alpha_vantage_query fn ev slf symb tr = (r, tr') \<Longrightarrow>
   http_calls tr' = http_calls tr @
     [(base_url slf, [(''function'', fn), (''symbol'', symb), (''apikey'', api_key slf)])]"
  by (auto simp: alpha_vantage_query_def Let_def http_calls_append
      split: http_reply.splits if_splits option.splits sum.splits bool.splits)

lemma query_uploads:
  "alpha_vantage_query fn ev slf symb tr = (r, tr') \<Longrightarrow> uploads tr' = uploads tr"
  by (auto simp: alpha_vantage_query_def Let_def uploads_append
      split: http_reply.splits if_splits option.splits sum.splits bool.splits)

lemma profile_http_calls:
  "get_etf_profile ev slf s tr = (r, tr') \<Longrightarrow> http_calls tr' = http_calls tr @ [profile_query slf s]"
  unfolding get_etf_profile_def profile_query_def by (rule query_http_calls)

lemma holdings_http_calls:
  "get_etf_holdings ev slf s tr = (r, tr') \<Longrightarrow> http_calls tr' = http_calls tr @ [holdings_query slf s]"
  unfolding get_etf_holdings_def holdings_query_def by (rule query_http_calls)

lemma profile_uploads: "get_etf_profile ev slf s tr = (r, tr') \<Longrightarrow> uploads tr' = uploads tr"
  unfolding get_etf_profile_def by (rule query_uploads)

lemma holdings_uploads: "get_etf_holdings ev slf s tr = (r, tr') \<Longrightarrow> uploads tr' = uploads tr"
  unfolding get_etf_holdings_def by (rule query_uploads)

lemma store_http_calls:
  "store_to_gcs ev slf data symb dt tr = (r, tr') \<Longrightarrow> http_calls tr' = http_calls tr"
  by (auto simp: store_to_gcs_def Let_def http_calls_append split: option.splits)

lemma store_uploads_ok:
  "store_to_gcs ev slf data symb dt tr = (Inr p, tr') \<Longrightarrow>
   \<exists>b. uploads tr' = uploads tr @ [(b, True)] \<and> p = ''gs://'' @ bucket_name slf @ ''/'' @ b"
  by (auto simp: store_to_gcs_def Let_def uploads_append split: option.splits)

lemma store_uploads_fail:
  "store_to_gcs ev slf data symb dt tr = (Inl e, tr') \<Longrightarrow>
   \<exists>b. uploads tr' = uploads tr @ [(b, False)]"
  by (auto simp: store_to_gcs_def Let_def uploads_append split: option.splits)

lemma store_uploads_fail_name:
  "store_to_gcs ev slf data symb dt tr = (Inl e, tr') \<Longrightarrow>
   \<exists>b. prefix (''etf_data/'' @ dt @ ''/'') b \<and> uploads tr' = uploads tr @ [(b, False)]"
  by (auto simp: store_to_gcs_def Let_def uploads_append blob_name_of_def split: option.splits)

lemma store_location:
  "store_to_gcs ev slf data symb dt tr = (Inr p, tr') \<Longrightarrow> location_of slf dt symb p"
  by (auto simp: store_to_gcs_def Let_def location_of_def blob_name_of_def split: option.splits)

subsection \<open>The six paths through ingest\_etf\_data\<close>

text \<open>
  A run of \<open>ingest_etf_data\<close> takes exactly one of six paths: the profile fetch raises,
  the profile store raises, the run ends after the profile (holdings not requested), the
  holdings fetch raises, the holdings store raises, or all four steps succeed. Each case
  comes with the results of the steps taken and with the value returned.
\<close>

lemma ingest_paths [case_names profile_fetch profile_store profile_only holdings_fetch holdings_store both]:
  assumes
    "\<And>e tr1. get_etf_profile ev slf s (tr @ [ClockRead, Log INFO]) = (Inl e, tr1) \<Longrightarrow>
       ingest_etf_data ev slf s ih tr = (failed ev s [] e tr, tr1 @ [Log ERROR]) \<Longrightarrow> P"
    "\<And>d tr1 e tr2. get_etf_profile ev slf s (tr @ [ClockRead, Log INFO]) = (Inr d, tr1) \<Longrightarrow>
       store_to_gcs ev slf d s ''profile'' tr1 = (Inl e, tr2) \<Longrightarrow>
       ingest_etf_data ev slf s ih tr = (failed ev s [] e tr, tr2 @ [Log ERROR]) \<Longrightarrow> P"
    "\<And>d tr1 p tr2. get_etf_profile ev slf s (tr @ [ClockRead, Log INFO]) = (Inr d, tr1) \<Longrightarrow>
       store_to_gcs ev slf d s ''profile'' tr1 = (Inr p, tr2) \<Longrightarrow> \<not> ih \<Longrightarrow>
       ingest_etf_data ev slf s ih tr = (succeeded ev s [p] tr, tr2 @ [Log INFO]) \<Longrightarrow> P"
    "\<And>d tr1 p tr2 e tr3. get_etf_profile ev slf s (tr @ [ClockRead, Log INFO]) = (Inr d, tr1) \<Longrightarrow>
       store_to_gcs ev slf d s ''profile'' tr1 = (Inr p, tr2) \<Longrightarrow> ih \<Longrightarrow>
       get_etf_holdings ev slf s tr2 = (Inl e, tr3) \<Longrightarrow>
       ingest_etf_data ev slf s ih tr = (failed ev s [p] e tr, tr3 @ [Log ERROR]) \<Longrightarrow> P"
    "\<And>d tr1 p tr2 h tr3 e tr4. get_etf_profile ev slf s (tr @ [ClockRead, Log INFO]) = (Inr d, tr1) \<Longrightarrow>
       store_to_gcs ev slf d s ''profile'' tr1 = (Inr p, tr2) \<Longrightarrow> ih \<Longrightarrow>
       get_etf_holdings ev slf s tr2 = (Inr h, tr3) \<Longrightarrow>
       store_to_gcs ev slf h s ''holdings'' tr3 = (Inl e, tr4) \<Longrightarrow>
       ingest_etf_data ev slf s ih tr = (failed ev s [p] e tr, tr4 @ [Log ERROR]) \<Longrightarrow> P"
    "\<And>d tr1 p tr2 h tr3 q tr4. get_etf_profile ev slf s (tr @ [ClockRead, Log INFO]) = (Inr d, tr1) \<Longrightarrow>
       store_to_gcs ev slf d s ''profile'' tr1 = (Inr p, tr2) \<Longrightarrow> ih \<Longrightarrow>
       get_etf_holdings ev slf s tr2 = (Inr h, tr3) \<Longrightarrow>
       store_to_gcs ev slf h s ''holdings'' tr3 = (Inr q, tr4) \<Longrightarrow>
       ingest_etf_data ev slf s ih tr = (succeeded ev s [p, q] tr, tr4 @ [Log INFO]) \<Longrightarrow> P"
  shows P
proof -
  obtain r1 tr1 where a: "get_etf_profile ev slf s (tr @ [ClockRead, Log INFO]) = (r1, tr1)"
    by (cases "get_etf_profile ev slf s (tr @ [ClockRead, Log INFO])")
  show P
  proof (cases r1)
    case (Inl e)
    with a assms(1) show P
      by (simp add: ingest_etf_data_def finish_error_def failed_def Let_def)
  next
    case d: (Inr d)
    obtain r2 tr2 where b: "store_to_gcs ev slf d s ''profile'' tr1 = (r2, tr2)"
      by (cases "store_to_gcs ev slf d s ''profile'' tr1")
    show P
    proof (cases r2)
      case (Inl e)
      with a b d assms(2) show P
        by (simp add: ingest_etf_data_def finish_error_def failed_def Let_def)
    next
      case p: (Inr p)
      show P
      proof (cases ih)
        case False
        with a b d p assms(3) show P
          by (simp add: ingest_etf_data_def finish_success_def succeeded_def Let_def)
      next
        case True
        obtain r3 tr3 where c: "get_etf_holdings ev slf s tr2 = (r3, tr3)"
          by (cases "get_etf_holdings ev slf s tr2")
        show P
        proof (cases r3)
          case (Inl e)
          with a b c d p True assms(4) show P
            by (simp add: ingest_etf_data_def finish_error_def failed_def Let_def)
        next
          case h: (Inr h)
          obtain r4 tr4 where f: "store_to_gcs ev slf h s ''holdings'' tr3 = (r4, tr4)"
            by (cases "store_to_gcs ev slf h s ''holdings'' tr3")
          show P
          proof (cases r4)
            case (Inl e)
            with a b c d p h f True assms(5) show P
              by (simp add: ingest_etf_data_def finish_error_def failed_def Let_def)
          next
            case (Inr q)
            with a b c d p h f True assms(6) show P
              by (simp add: ingest_etf_data_def finish_success_def succeeded_def Let_def)
          qed
        qed
      qed
    qed
  qed
qed

lemma ingest_http_calls:
  "http_calls (snd (ingest_etf_data ev slf s ih tr)) = http_calls tr @ [profile_query slf s]
   \<or> (ih \<and> http_calls (snd (ingest_etf_data ev slf s ih tr)) =
          http_calls tr @ [profile_query slf s, holdings_query slf s])"
  by (cases rule: ingest_paths [of ev slf s tr ih])
     (auto simp: http_calls_append dest!: profile_http_calls holdings_http_calls store_http_calls)

lemma ingest_symbol: "symbol (fst (ingest_etf_data ev slf s ih tr)) = s"
  by (cases rule: ingest_paths [of ev slf s tr ih]) (simp_all add: failed_def succeeded_def)

lemma ingest_profile_queries:
  "profile_queries (snd (ingest_etf_data ev slf s ih tr)) = profile_queries tr @ [s]"
  using ingest_http_calls [of ev slf s ih tr]
  by (auto simp: profile_queries_def is_profile_query_def query_symbol_def profile_query_def
      holdings_query_def)

subsection \<open>The loop of the scheduled entry point\<close>

lemma ingest_each_spec:
  "ingest_each ev slf ih symbols acc tr = (results, tr') \<Longrightarrow>
   map symbol results = map symbol acc @ symbols \<and>
   profile_queries tr' = profile_queries tr @ symbols"
proof (induction symbols arbitrary: acc tr)
  case Nil
  then show ?case by simp
next
  case (Cons s rest)
  obtain r tr1 where a: "ingest_etf_data ev slf s ih (tr @ [Log INFO]) = (r, tr1)"
    by (cases "ingest_etf_data ev slf s ih (tr @ [Log INFO])")
  from a have "symbol r = s"
    using ingest_symbol [of ev slf s ih "tr @ [Log INFO]"] by simp
  moreover from a have "profile_queries tr1 = profile_queries tr @ [s]"
    using ingest_profile_queries [of ev slf s ih "tr @ [Log INFO]"]
    by (simp add: profile_queries_def http_calls_append)
  moreover from Cons.prems a have "ingest_each ev slf ih rest (acc @ [r]) tr1 = (results, tr')"
    by simp
  ultimately show ?case using Cons.IH [of "acc @ [r]" tr1] by simp
qed

lemma ingest_each_prefix:
  "ingest_each ev slf ih symbols acc tr = (results, tr') \<Longrightarrow> \<exists>more. results = acc @ more"
proof (induction symbols arbitrary: acc tr)
  case Nil
  then show ?case by simp
next
  case (Cons s rest)
  obtain r tr1 where a: "ingest_etf_data ev slf s ih (tr @ [Log INFO]) = (r, tr1)"
    by (cases "ingest_etf_data ev slf s ih (tr @ [Log INFO])")
  with Cons.prems have "ingest_each ev slf ih rest (acc @ [r]) tr1 = (results, tr')"
    by simp
  from Cons.IH [OF this] show ?case by auto
qed

subsection \<open>Evaluation on the concrete environments\<close>

lemma char_of_digit:
  "char_of (48::nat) = CHR ''0''" "char_of (49::nat) = CHR ''1''" "char_of (50::nat) = CHR ''2''"
  "char_of (51::nat) = CHR ''3''" "char_of (52::nat) = CHR ''4''" "char_of (53::nat) = CHR ''5''"
  "char_of (54::nat) = CHR ''6''" "char_of (55::nat) = CHR ''7''" "char_of (56::nat) = CHR ''8''"
  "char_of (57::nat) = CHR ''9''"
  by code_simp+

lemmas run_defs =
  etf_data_ingest_scheduled_def AlphaVantageETFIngest_def ingest_etf_data_def
  get_etf_profile_def get_etf_holdings_def alpha_vantage_query_def store_to_gcs_def
  finish_success_def finish_error_def sample_env_def sample_environ_def sample_http_def
  sample_payload_def error_payload_def Let_def returned_outcomes_def sample_self_def

lemmas time_defs = sample_time_def strftime_timestamp_def strftime_date_path_def isoformat_def
  pad2_def pad4_def pad6_def digit_def char_of_digit

lemmas env_defs = failing_store_env_def failing_holdings_store_env_def upload_fails_def
  holdings_upload_fails_def blob_name_of_def

subsection \<open>The scheduled batch\<close>

text \<open>
  Claim C1, as amended. When the constructor succeeds and the event carries a non-empty
  list of symbols, the scheduled run returns a list of outcomes (it does not raise and
  does not return \<open>None\<close>) whose length is the length of the list of symbols and whose
  i-th outcome carries the i-th symbol; it issues exactly one profile query per entry of
  the list, in the order of the list. This holds for every flag and every behaviour of
  the collaborators, so whichever symbols fail. The length counts duplicates: it is the
  number of distinct symbols exactly when the list has no duplicates.
\<close>

theorem scheduled_batch_outcomes:
  assumes "AlphaVantageETFIngest ev = Inr slf"
    and "data_symbols data = Some symbols"
    and "symbols \<noteq> []"
  shows "fst (etf_data_ingest_scheduled ev data tr) =
           Inr (Some (returned_outcomes (fst (etf_data_ingest_scheduled ev data tr))))
       \<and> length (returned_outcomes (fst (etf_data_ingest_scheduled ev data tr))) = length symbols
       \<and> map symbol (returned_outcomes (fst (etf_data_ingest_scheduled ev data tr))) = symbols
       \<and> profile_queries (snd (etf_data_ingest_scheduled ev data tr)) =
           profile_queries tr @ symbols
       \<and> ((length (returned_outcomes (fst (etf_data_ingest_scheduled ev data tr))) =
             card (set symbols)) = distinct symbols)"
proof -
  define ih where "ih = (case data_include_holdings data of None \<Rightarrow> True | Some b \<Rightarrow> b)"
  obtain results tr' where loop: "ingest_each ev slf ih symbols [] tr = (results, tr')"
    by (cases "ingest_each ev slf ih symbols [] tr")
  from assms loop have run:
    "etf_data_ingest_scheduled ev data tr = (Inr (Some results), tr' @ [Log INFO])"
    by (simp add: etf_data_ingest_scheduled_def ih_def)
  from ingest_each_spec [OF loop]
  have m: "map symbol results = symbols" and q: "profile_queries tr' = profile_queries tr @ symbols"
    by simp_all
  from m have l: "length results = length symbols"
    by (metis length_map)
  have "(length symbols = card (set symbols)) = distinct symbols"
    using card_distinct distinct_card by metis
  moreover have "profile_queries (tr' @ [Log INFO]) = profile_queries tr'"
    by (simp add: profile_queries_def http_calls_append)
  ultimately show ?thesis using run m q l
    by (simp add: returned_outcomes_def)
qed

text \<open>
  Claim C1 as stated fails for a list with duplicates: for the symbols \<open>QQQ, QQQ\<close> the
  run returns two outcomes, and the number of distinct symbols requested is one.
\<close>

theorem duplicate_symbols_counterexample:
  "length (returned_outcomes (fst (etf_data_ingest_scheduled sample_env
      \<lparr>data_symbols = Some [''QQQ'', ''QQQ''], data_include_holdings = Some False\<rparr> [])))
   \<noteq> card (set [''QQQ'', ''QQQ''])"
  by (simp add: run_defs)

theorem scheduled_batch_outcomes_witness:
  "AlphaVantageETFIngest sample_env = Inr sample_self
   \<and> [''BAD'', ''QQQ''] \<noteq> []
   \<and> map symbol (returned_outcomes (fst (etf_data_ingest_scheduled sample_env
        \<lparr>data_symbols = Some [''BAD'', ''QQQ''], data_include_holdings = None\<rparr> []))) =
       [''BAD'', ''QQQ'']
   \<and> map status (returned_outcomes (fst (etf_data_ingest_scheduled sample_env
        \<lparr>data_symbols = Some [''BAD'', ''QQQ''], data_include_holdings = None\<rparr> []))) =
       [Some ''error'', Some ''success'']"
proof -
  have a: "AlphaVantageETFIngest sample_env = Inr sample_self"
    by (simp add: run_defs)
  have b: "data_symbols \<lparr>data_symbols = Some [''BAD'', ''QQQ''], data_include_holdings = None\<rparr>
             = Some [''BAD'', ''QQQ'']"
    by simp
  have c: "[''BAD'', ''QQQ''] \<noteq> []" by simp
  have d: "map status (returned_outcomes (fst (etf_data_ingest_scheduled sample_env
        \<lparr>data_symbols = Some [''BAD'', ''QQQ''], data_include_holdings = None\<rparr> []))) =
       [Some ''error'', Some ''success'']"
    by (simp add: run_defs)
  from scheduled_batch_outcomes [OF a b c, of "[]"] a c d show ?thesis by simp
qed

subsection \<open>Failures are caught per symbol\<close>

text \<open>
  Claim C2. If one of the steps of a symbol raises an exception \<open>e\<close> (the profile
  fetch, the profile store, the holdings fetch or the holdings store; a transport error,
  an error status, an unparsable body, an \<open>Error Message\<close> in the body or a failed
  upload), then \<open>ingest_etf_data\<close> returns an outcome with status \<open>error\<close> that carries
  \<open>e\<close> as its error message. In a batch whose loop reaches that symbol at the trace
  \<open>tb\<close>, the failed outcome is one entry of the results and the loop goes on: there is
  an outcome for every later symbol, and the profile query of every later symbol is
  issued.
\<close>

theorem step_failures_are_caught:
  assumes "get_etf_profile ev slf s (tr @ [ClockRead, Log INFO]) = (Inl e, tr1)
     \<or> (get_etf_profile ev slf s (tr @ [ClockRead, Log INFO]) = (Inr d, tr1)
         \<and> store_to_gcs ev slf d s ''profile'' tr1 = (Inl e, tr2))
     \<or> (ih \<and> get_etf_profile ev slf s (tr @ [ClockRead, Log INFO]) = (Inr d, tr1)
         \<and> store_to_gcs ev slf d s ''profile'' tr1 = (Inr p, tr2)
         \<and> get_etf_holdings ev slf s tr2 = (Inl e, tr3))
     \<or> (ih \<and> get_etf_profile ev slf s (tr @ [ClockRead, Log INFO]) = (Inr d, tr1)
         \<and> store_to_gcs ev slf d s ''profile'' tr1 = (Inr p, tr2)
         \<and> get_etf_holdings ev slf s tr2 = (Inr h, tr3)
         \<and> store_to_gcs ev slf h s ''holdings'' tr3 = (Inl e, tr4))"
  shows "status (fst (ingest_etf_data ev slf s ih tr)) = Some ''error''
     \<and> error_message (fst (ingest_etf_data ev slf s ih tr)) = Some e
     \<and> (tr = tb @ [Log INFO] \<longrightarrow>
          map symbol (fst (ingest_each ev slf ih (s # rest) acc tb)) = map symbol acc @ s # rest
          \<and> fst (ingest_each ev slf ih (s # rest) acc tb) ! length acc =
              fst (ingest_etf_data ev slf s ih tr)
          \<and> profile_queries (snd (ingest_each ev slf ih (s # rest) acc tb)) =
              profile_queries tb @ s # rest)"
proof -
  have caught: "status (fst (ingest_etf_data ev slf s ih tr)) = Some ''error''
     \<and> error_message (fst (ingest_etf_data ev slf s ih tr)) = Some e"
    by (cases rule: ingest_paths [of ev slf s tr ih]) (use assms in \<open>auto simp: failed_def\<close>)
  have batch: "map symbol (fst (ingest_each ev slf ih (s # rest) acc tb)) = map symbol acc @ s # rest
          \<and> fst (ingest_each ev slf ih (s # rest) acc tb) ! length acc =
              fst (ingest_etf_data ev slf s ih tr)
          \<and> profile_queries (snd (ingest_each ev slf ih (s # rest) acc tb)) =
              profile_queries tb @ s # rest" if tr: "tr = tb @ [Log INFO]"
  proof -
    obtain results tr' where run: "ingest_each ev slf ih (s # rest) acc tb = (results, tr')"
      by (cases "ingest_each ev slf ih (s # rest) acc tb")
    obtain r tra where one: "ingest_etf_data ev slf s ih tr = (r, tra)"
      by (cases "ingest_etf_data ev slf s ih tr")
    from run one tr have tail: "ingest_each ev slf ih rest (acc @ [r]) tra = (results, tr')"
      by simp
    from ingest_each_spec [OF run]
    have all: "map symbol results = map symbol acc @ s # rest"
      "profile_queries tr' = profile_queries tb @ s # rest"
      by simp_all
    from ingest_each_prefix [OF tail] have "results ! length acc = r"
      by (auto simp: nth_append)
    with run one all show ?thesis by simp
  qed
  from caught batch show ?thesis by blast
qed

theorem step_failures_are_caught_witness:
  "get_etf_profile sample_env sample_self ''BAD'' ([Log INFO] @ [ClockRead, Log INFO]) =
     (Inl (AlphaVantageError (JStr ''Invalid API call'')),
      snd (get_etf_profile sample_env sample_self ''BAD'' [Log INFO, ClockRead, Log INFO]))
   \<and> status (fst (ingest_etf_data sample_env sample_self ''BAD'' True [Log INFO])) = Some ''error''
   \<and> error_message (fst (ingest_etf_data sample_env sample_self ''BAD'' True [Log INFO])) =
       Some (AlphaVantageError (JStr ''Invalid API call''))
   \<and> map symbol (fst (ingest_each sample_env sample_self True [''BAD'', ''QQQ''] [] [])) =
       [''BAD'', ''QQQ'']
   \<and> map status (fst (ingest_each sample_env sample_self True [''BAD'', ''QQQ''] [] [])) =
       [Some ''error'', Some ''success'']
   \<and> profile_queries (snd (ingest_each sample_env sample_self True [''BAD'', ''QQQ''] [] [])) =
       [''BAD'', ''QQQ'']"
proof -
  let ?e = "AlphaVantageError (JStr ''Invalid API call'')"
  let ?tr1 = "snd (get_etf_profile sample_env sample_self ''BAD'' [Log INFO, ClockRead, Log INFO])"
  have a: "get_etf_profile sample_env sample_self ''BAD'' ([Log INFO] @ [ClockRead, Log INFO]) =
      (Inl ?e, ?tr1)"
    by (simp add: run_defs)
  then have hyp: "get_etf_profile sample_env sample_self ''BAD'' ([Log INFO] @ [ClockRead, Log INFO]) =
        (Inl ?e, ?tr1)
     \<or> (get_etf_profile sample_env sample_self ''BAD'' ([Log INFO] @ [ClockRead, Log INFO]) =
          (Inr JNull, ?tr1)
         \<and> store_to_gcs sample_env sample_self JNull ''BAD'' ''profile'' ?tr1 = (Inl ?e, []))
     \<or> (True \<and> get_etf_profile sample_env sample_self ''BAD'' ([Log INFO] @ [ClockRead, Log INFO]) =
          (Inr JNull, ?tr1)
         \<and> store_to_gcs sample_env sample_self JNull ''BAD'' ''profile'' ?tr1 = (Inr [], [])
         \<and> get_etf_holdings sample_env sample_self ''BAD'' [] = (Inl ?e, []))
     \<or> (True \<and> get_etf_profile sample_env sample_self ''BAD'' ([Log INFO] @ [ClockRead, Log INFO]) =
          (Inr JNull, ?tr1)
         \<and> store_to_gcs sample_env sample_self JNull ''BAD'' ''profile'' ?tr1 = (Inr [], [])
         \<and> get_etf_holdings sample_env sample_self ''BAD'' [] = (Inr JNull, [])
         \<and> store_to_gcs sample_env sample_self JNull ''BAD'' ''holdings'' [] = (Inl ?e, []))"
    by (rule disjI1)
  have tr: "[Log INFO] = [] @ [Log INFO]" by simp
  have st: "map status (fst (ingest_each sample_env sample_self True [''BAD'', ''QQQ''] [] [])) =
       [Some ''error'', Some ''success'']"
    by (simp add: run_defs)
  have "profile_queries [] = []"
    by (simp add: profile_queries_def)
  with step_failures_are_caught [OF hyp, of "[]" "[''QQQ'']" "[]"] tr a st
  show ?thesis
    by (simp del: ingest_each.simps)
qed

subsection \<open>A failed profile step\<close>

text \<open>
  Claim C3. If the profile fetch raises (an \<open>Error Message\<close> inside a 200 body
  included), or the profile fetch succeeds and the profile store raises, then for every
  flag the outcome has status \<open>error\<close> and no location, no object is written, and the
  only query issued is the profile query, so the holdings fetch is never attempted. After
  a failed fetch no upload is attempted at all; after a failed store the only upload
  attempted is the failed upload of the profile, so the holdings store is never
  attempted either.
\<close>

theorem profile_failure_creates_nothing:
  assumes "isl (fst (get_etf_profile ev slf s (tr @ [ClockRead, Log INFO])))
     \<or> (get_etf_profile ev slf s (tr @ [ClockRead, Log INFO]) = (Inr d, tr1)
         \<and> isl (fst (store_to_gcs ev slf d s ''profile'' tr1)))"
  shows "status (fst (ingest_etf_data ev slf s ih tr)) = Some ''error''
     \<and> files_created (fst (ingest_etf_data ev slf s ih tr)) = []
     \<and> written (snd (ingest_etf_data ev slf s ih tr)) = written tr
     \<and> http_calls (snd (ingest_etf_data ev slf s ih tr)) = http_calls tr @ [profile_query slf s]
     \<and> (isl (fst (get_etf_profile ev slf s (tr @ [ClockRead, Log INFO]))) \<longrightarrow>
          uploads (snd (ingest_etf_data ev slf s ih tr)) = uploads tr)
     \<and> (\<not> isl (fst (get_etf_profile ev slf s (tr @ [ClockRead, Log INFO]))) \<longrightarrow>
          (\<exists>b. prefix ''etf_data/profile/'' b
             \<and> uploads (snd (ingest_etf_data ev slf s ih tr)) = uploads tr @ [(b, False)]))"
proof (cases rule: ingest_paths [of ev slf s tr ih])
  case (profile_fetch e tr1)
  from profile_http_calls [OF profile_fetch(1)] profile_uploads [OF profile_fetch(1)]
  have "http_calls tr1 = http_calls tr @ [profile_query slf s]" "uploads tr1 = uploads tr"
    by simp_all
  with profile_fetch show ?thesis
    by (simp add: failed_def written_def)
next
  case (profile_store d' tr1' e tr2)
  from store_uploads_fail_name [OF profile_store(2)] obtain b where
    b: "prefix ''etf_data/profile/'' b" "uploads tr2 = uploads tr1' @ [(b, False)]"
    by auto
  from profile_http_calls [OF profile_store(1)] profile_uploads [OF profile_store(1)]
    store_http_calls [OF profile_store(2)]
  have "http_calls tr2 = http_calls tr @ [profile_query slf s]" "uploads tr1' = uploads tr"
    by simp_all
  with profile_store b show ?thesis
    by (auto simp: failed_def written_def)
next
  case (profile_only d' tr1' p tr2)
  with assms show ?thesis by auto
next
  case (holdings_fetch d' tr1' p tr2 e tr3)
  with assms show ?thesis by auto
next
  case (holdings_store d' tr1' p tr2 h tr3 e tr4)
  with assms show ?thesis by auto
next
  case (both d' tr1' p tr2 h tr3 q tr4)
  with assms show ?thesis by auto
qed

theorem profile_failure_creates_nothing_witness:
  "isl (fst (get_etf_profile sample_env sample_self ''BAD'' ([] @ [ClockRead, Log INFO])))
   \<and> status (fst (ingest_etf_data sample_env sample_self ''BAD'' True [])) = Some ''error''
   \<and> files_created (fst (ingest_etf_data sample_env sample_self ''BAD'' True [])) = []
   \<and> uploads (snd (ingest_etf_data sample_env sample_self ''BAD'' True [])) = []
   \<and> isl (fst (store_to_gcs failing_store_env sample_self sample_payload ''QQQ'' ''profile''
        (snd (get_etf_profile failing_store_env sample_self ''QQQ'' ([] @ [ClockRead, Log INFO])))))
   \<and> status (fst (ingest_etf_data failing_store_env sample_self ''QQQ'' True [])) = Some ''error''
   \<and> files_created (fst (ingest_etf_data failing_store_env sample_self ''QQQ'' True [])) = []
   \<and> written (snd (ingest_etf_data failing_store_env sample_self ''QQQ'' True [])) = []"
proof -
  have a: "isl (fst (get_etf_profile sample_env sample_self ''BAD'' ([] @ [ClockRead, Log INFO])))"
    by (simp add: run_defs)
  have b: "get_etf_profile failing_store_env sample_self ''QQQ'' ([] @ [ClockRead, Log INFO]) =
      (Inr sample_payload,
       snd (get_etf_profile failing_store_env sample_self ''QQQ'' ([] @ [ClockRead, Log INFO])))"
    by (simp add: run_defs env_defs)
  have c: "isl (fst (store_to_gcs failing_store_env sample_self sample_payload ''QQQ'' ''profile''
        (snd (get_etf_profile failing_store_env sample_self ''QQQ'' ([] @ [ClockRead, Log INFO])))))"
    by (simp add: run_defs env_defs)
  from a have a': "isl (fst (get_etf_profile sample_env sample_self ''BAD'' ([] @ [ClockRead, Log INFO])))
     \<or> (get_etf_profile sample_env sample_self ''BAD'' ([] @ [ClockRead, Log INFO]) = (Inr JNull, [])
         \<and> isl (fst (store_to_gcs sample_env sample_self JNull ''BAD'' ''profile'' [])))"
    by (rule disjI1)
  from b c have bc: "isl (fst (get_etf_profile failing_store_env sample_self ''QQQ'' ([] @ [ClockRead, Log INFO])))
     \<or> (get_etf_profile failing_store_env sample_self ''QQQ'' ([] @ [ClockRead, Log INFO]) =
          (Inr sample_payload,
           snd (get_etf_profile failing_store_env sample_self ''QQQ'' ([] @ [ClockRead, Log INFO])))
         \<and> isl (fst (store_to_gcs failing_store_env sample_self sample_payload ''QQQ'' ''profile''
              (snd (get_etf_profile failing_store_env sample_self ''QQQ'' ([] @ [ClockRead, Log INFO]))))))"
    by blast
  from profile_failure_creates_nothing [OF a', of True]
       profile_failure_creates_nothing [OF bc, of True] a c
  show ?thesis
    by (simp add: written_def)
qed

subsection \<open>A failed holdings step\<close>

text \<open>
  Claim C4. If the profile fetch and the profile store succeed, holdings are requested,
  and the holdings fetch or the holdings store raises, then the outcome has status
  \<open>error\<close> and its list of locations is exactly the location \<open>p\<close> returned by the
  profile store, a profile location in the bucket; the profile object is the only object
  written by the run.
\<close>

theorem holdings_failure_keeps_profile:
  assumes "get_etf_profile ev slf s (tr @ [ClockRead, Log INFO]) = (Inr d, tr1)"
    and "store_to_gcs ev slf d s ''profile'' tr1 = (Inr p, tr2)"
    and "isl (fst (get_etf_holdings ev slf s tr2))
       \<or> (get_etf_holdings ev slf s tr2 = (Inr h, tr3)
           \<and> isl (fst (store_to_gcs ev slf h s ''holdings'' tr3)))"
  shows "status (fst (ingest_etf_data ev slf s True tr)) = Some ''error''
     \<and> files_created (fst (ingest_etf_data ev slf s True tr)) = [p]
     \<and> location_of slf ''profile'' s p
     \<and> (\<exists>b. p = ''gs://'' @ bucket_name slf @ ''/'' @ b
            \<and> written (snd (ingest_etf_data ev slf s True tr)) = written tr @ [b])"
proof -
  from assms(2) obtain b where b: "uploads tr2 = uploads tr1 @ [(b, True)]"
    "p = ''gs://'' @ bucket_name slf @ ''/'' @ b"
    using store_uploads_ok by blast
  from assms(1) have u1: "uploads tr1 = uploads tr"
    using profile_uploads by fastforce
  from assms(2) have loc: "location_of slf ''profile'' s p"
    by (rule store_location)
  show ?thesis
  proof (cases rule: ingest_paths [of ev slf s tr True])
    case (holdings_fetch d' tr1' p' tr2' e tr3')
    from holdings_uploads [OF holdings_fetch(4)] have "uploads tr3' = uploads tr2'" .
    with holdings_fetch assms b u1 loc show ?thesis
      by (auto simp: failed_def written_def)
  next
    case (holdings_store d' tr1' p' tr2' h' tr3' e tr4)
    from store_uploads_fail [OF holdings_store(5)] obtain b' where
      "uploads tr4 = uploads tr3' @ [(b', False)]"
      by auto
    moreover from holdings_uploads [OF holdings_store(4)] have "uploads tr3' = uploads tr2'" .
    ultimately show ?thesis using holdings_store assms b u1 loc
      by (auto simp: failed_def written_def)
  next
    case (both d' tr1' p' tr2' h' tr3' q tr4)
    with assms show ?thesis by auto
  qed (use assms in auto)
qed

theorem holdings_failure_keeps_profile_witness:
  "get_etf_profile failing_holdings_store_env sample_self ''SPY'' ([] @ [ClockRead, Log INFO]) =
     (Inr sample_payload,
      snd (get_etf_profile failing_holdings_store_env sample_self ''SPY'' [ClockRead, Log INFO]))
   \<and> isl (fst (store_to_gcs failing_holdings_store_env sample_self sample_payload ''SPY'' ''holdings''
        (snd (get_etf_holdings failing_holdings_store_env sample_self ''SPY''
          (snd (store_to_gcs failing_holdings_store_env sample_self sample_payload ''SPY'' ''profile''
            (snd (get_etf_profile failing_holdings_store_env sample_self ''SPY''
                   [ClockRead, Log INFO]))))))))
   \<and> status (fst (ingest_etf_data failing_holdings_store_env sample_self ''SPY'' True [])) =
       Some ''error''
   \<and> files_created (fst (ingest_etf_data failing_holdings_store_env sample_self ''SPY'' True [])) =
       [''gs://etf-bucket/etf_data/profile/SPY/2024/03/15/SPY_profile_20240315_093005.json'']"
proof -
  let ?ev = failing_holdings_store_env
  let ?tr1 = "snd (get_etf_profile ?ev sample_self ''SPY'' [ClockRead, Log INFO])"
  let ?p = "''gs://etf-bucket/etf_data/profile/SPY/2024/03/15/SPY_profile_20240315_093005.json''"
  let ?tr2 = "snd (store_to_gcs ?ev sample_self sample_payload ''SPY'' ''profile'' ?tr1)"
  let ?tr3 = "snd (get_etf_holdings ?ev sample_self ''SPY'' ?tr2)"
  have a: "get_etf_profile ?ev sample_self ''SPY'' ([] @ [ClockRead, Log INFO]) =
      (Inr sample_payload, ?tr1)"
    by (simp add: run_defs env_defs)
  have b: "store_to_gcs ?ev sample_self sample_payload ''SPY'' ''profile'' ?tr1 = (Inr ?p, ?tr2)"
    by (simp add: run_defs env_defs time_defs)
  have c: "get_etf_holdings ?ev sample_self ''SPY'' ?tr2 = (Inr sample_payload, ?tr3)"
    by (simp add: run_defs env_defs)
  have d: "isl (fst (store_to_gcs ?ev sample_self sample_payload ''SPY'' ''holdings'' ?tr3))"
    by (simp add: run_defs env_defs)
  from c d have cd: "isl (fst (get_etf_holdings ?ev sample_self ''SPY'' ?tr2))
       \<or> (get_etf_holdings ?ev sample_self ''SPY'' ?tr2 = (Inr sample_payload, ?tr3)
           \<and> isl (fst (store_to_gcs ?ev sample_self sample_payload ''SPY'' ''holdings'' ?tr3)))"
    by blast
  from holdings_failure_keeps_profile [OF a b cd] a d show ?thesis
    by simp
qed

subsection \<open>Error signals inside a response body\<close>

lemma query_on_object:
  assumes "http ev (tr @ [Log INFO]) (base_url slf)
             [(''function'', fn), (''symbol'', s), (''apikey'', api_key slf)] =
           Response code (Some (JObj fs))"
    and "\<not> (400 \<le> code \<and> code < 600)"
  shows "alpha_vantage_query fn ev slf s tr =
     (case map_of fs ''Error Message'' of
        Some msg \<Rightarrow>
          (Inl (AlphaVantageError msg),
           tr @ [Log INFO, HttpGet (base_url slf)
                   [(''function'', fn), (''symbol'', s), (''apikey'', api_key slf)]])
      | None \<Rightarrow>
          (Inr (JObj fs),
           tr @ [Log INFO, HttpGet (base_url slf)
                   [(''function'', fn), (''symbol'', s), (''apikey'', api_key slf)]]
              @ (if ''Note'' \<in> fst ` set fs then [Log WARNING] else [])))"
proof (cases "map_of fs ''Error Message''")
  case None
  then have no: "''Error Message'' \<notin> fst ` set fs"
    by (simp add: map_of_eq_None_iff)
  show ?thesis
  proof (cases "map_of fs ''Note''")
    case n: None
    then have "''Note'' \<notin> fst ` set fs"
      by (simp add: map_of_eq_None_iff)
    with assms None no n show ?thesis
      by (simp add: alpha_vantage_query_def Let_def)
  next
    case (Some nv)
    then have "''Note'' \<in> fst ` set fs"
      by (metis map_of_eq_None_iff option.distinct(1))
    with assms None no Some show ?thesis
      by (simp add: alpha_vantage_query_def Let_def)
  qed
next
  case (Some msg)
  then have "''Error Message'' \<in> fst ` set fs"
    by (metis map_of_eq_None_iff option.distinct(1))
  with assms Some show ?thesis
    by (simp add: alpha_vantage_query_def Let_def)
qed

text \<open>
  Claim C5. Let the reply to the query of \<open>get_etf_profile\<close> or of
  \<open>get_etf_holdings\<close> have a status code outside 400 to 599 and a body that parses to
  a JSON object. Then the fetch raises if and only if the object has the key
  \<open>Error Message\<close>, and what it raises is the API error carrying the value of that key.
  Without that key the fetch returns the object itself; a \<open>Note\<close> key then adds one
  warning to the log and nothing else.
\<close>

theorem api_error_iff_error_message_field:
  assumes "(fetch, fn) = (get_etf_profile, ''ETF_PROFILE'')
         \<or> (fetch, fn) = (get_etf_holdings, ''ETF_HOLDINGS'')"
    and "http ev (tr @ [Log INFO]) (base_url slf)
             [(''function'', fn), (''symbol'', s), (''apikey'', api_key slf)] =
           Response code (Some (JObj fs))"
    and "\<not> (400 \<le> code \<and> code < 600)"
  shows "isl (fst (fetch ev slf s tr)) = (''Error Message'' \<in> fst ` set fs)
     \<and> (''Error Message'' \<in> fst ` set fs \<longrightarrow>
          (\<exists>msg. map_of fs ''Error Message'' = Some msg
             \<and> fst (fetch ev slf s tr) = Inl (AlphaVantageError msg)))
     \<and> (''Error Message'' \<notin> fst ` set fs \<longrightarrow>
          fst (fetch ev slf s tr) = Inr (JObj fs)
          \<and> snd (fetch ev slf s tr) =
              tr @ [Log INFO, HttpGet (base_url slf)
                      [(''function'', fn), (''symbol'', s), (''apikey'', api_key slf)]]
                 @ (if ''Note'' \<in> fst ` set fs then [Log WARNING] else []))"
proof -
  from assms(1) have f: "fetch = alpha_vantage_query fn"
    by (auto simp: get_etf_profile_def get_etf_holdings_def)
  show ?thesis
  proof (cases "map_of fs ''Error Message''")
    case None
    then have "''Error Message'' \<notin> fst ` set fs"
      by (simp add: map_of_eq_None_iff)
    with query_on_object [OF assms(2,3)] None f show ?thesis
      by simp
  next
    case (Some msg)
    then have "''Error Message'' \<in> fst ` set fs"
      by (metis map_of_eq_None_iff option.distinct(1))
    with query_on_object [OF assms(2,3)] Some f show ?thesis
      by simp
  qed
qed

theorem api_error_iff_error_message_field_witness:
  "http note_env ([] @ [Log INFO]) (base_url sample_self)
      [(''function'', ''ETF_HOLDINGS''), (''symbol'', ''QQQ''), (''apikey'', api_key sample_self)] =
     Response 200 (Some (JObj [(''Note'', JStr ''rate limit reached''), (''net_assets'', JStr ''1'')]))
   \<and> \<not> (400 \<le> (200::nat) \<and> (200::nat) < 600)
   \<and> fst (get_etf_holdings note_env sample_self ''QQQ'' []) =
       Inr (JObj [(''Note'', JStr ''rate limit reached''), (''net_assets'', JStr ''1'')])
   \<and> snd (get_etf_holdings note_env sample_self ''QQQ'' []) =
       [Log INFO, HttpGet ''https://www.alphavantage.co/query''
          [(''function'', ''ETF_HOLDINGS''), (''symbol'', ''QQQ''), (''apikey'', ''demo'')],
        Log WARNING]
   \<and> http sample_env ([] @ [Log INFO]) (base_url sample_self)
      [(''function'', ''ETF_PROFILE''), (''symbol'', ''BAD''), (''apikey'', api_key sample_self)] =
     Response 200 (Some (JObj [(''Error Message'', JStr ''Invalid API call'')]))
   \<and> fst (get_etf_profile sample_env sample_self ''BAD'' []) =
       Inl (AlphaVantageError (JStr ''Invalid API call''))"
proof -
  have k1: "(get_etf_holdings, ''ETF_HOLDINGS'') = (get_etf_profile, ''ETF_PROFILE'')
         \<or> (get_etf_holdings, ''ETF_HOLDINGS'') = (get_etf_holdings, ''ETF_HOLDINGS'')"
    by simp
  have k2: "(get_etf_profile, ''ETF_PROFILE'') = (get_etf_profile, ''ETF_PROFILE'')
         \<or> (get_etf_profile, ''ETF_PROFILE'') = (get_etf_holdings, ''ETF_HOLDINGS'')"
    by simp
  have h1: "http note_env ([] @ [Log INFO]) (base_url sample_self)
      [(''function'', ''ETF_HOLDINGS''), (''symbol'', ''QQQ''), (''apikey'', api_key sample_self)] =
     Response 200 (Some (JObj [(''Note'', JStr ''rate limit reached''), (''net_assets'', JStr ''1'')]))"
    by (simp add: note_env_def note_payload_def sample_env_def)
  have h2: "http sample_env ([] @ [Log INFO]) (base_url sample_self)
      [(''function'', ''ETF_PROFILE''), (''symbol'', ''BAD''), (''apikey'', api_key sample_self)] =
     Response 200 (Some (JObj [(''Error Message'', JStr ''Invalid API call'')]))"
    by (simp add: sample_env_def sample_http_def error_payload_def)
  have c: "\<not> (400 \<le> (200::nat) \<and> (200::nat) < 600)"
    by simp
  from api_error_iff_error_message_field [OF k1 h1 c]
       api_error_iff_error_message_field [OF k2 h2 c] h1 h2
  show ?thesis
    by (simp add: sample_self_def)
qed

subsection \<open>A run without holdings\<close>

text \<open>
  Claim C6. With \<open>include_holdings = False\<close> a run issues exactly one query, the
  profile query of the symbol, whatever the collaborators do; the holdings query is not
  among the queries of the run. If the profile fetch and the profile store succeed, the
  run makes exactly one upload, which succeeds, and returns status \<open>success\<close> with
  exactly one location, the one the store returned.
\<close>

theorem profile_only_run:
  "http_calls (snd (ingest_etf_data ev slf s False tr)) = http_calls tr @ [profile_query slf s]
   \<and> holdings_query slf s \<notin> set (http_calls (snd (ingest_etf_data ev slf s False tr)))
        - set (http_calls tr)
   \<and> (get_etf_profile ev slf s (tr @ [ClockRead, Log INFO]) = (Inr d, tr1)
        \<and> store_to_gcs ev slf d s ''profile'' tr1 = (Inr p, tr2) \<longrightarrow>
      status (fst (ingest_etf_data ev slf s False tr)) = Some ''success''
      \<and> files_created (fst (ingest_etf_data ev slf s False tr)) = [p]
      \<and> (\<exists>b. p = ''gs://'' @ bucket_name slf @ ''/'' @ b
             \<and> uploads (snd (ingest_etf_data ev slf s False tr)) = uploads tr @ [(b, True)]))"
proof -
  have calls: "http_calls (snd (ingest_etf_data ev slf s False tr)) =
      http_calls tr @ [profile_query slf s]"
    using ingest_http_calls [of ev slf s False tr] by simp
  have "profile_query slf s \<noteq> holdings_query slf s"
    by (simp add: profile_query_def holdings_query_def)
  with calls have no_holdings: "holdings_query slf s \<notin>
      set (http_calls (snd (ingest_etf_data ev slf s False tr))) - set (http_calls tr)"
    by auto
  have "status (fst (ingest_etf_data ev slf s False tr)) = Some ''success''
      \<and> files_created (fst (ingest_etf_data ev slf s False tr)) = [p]
      \<and> (\<exists>b. p = ''gs://'' @ bucket_name slf @ ''/'' @ b
             \<and> uploads (snd (ingest_etf_data ev slf s False tr)) = uploads tr @ [(b, True)])"
    if f: "get_etf_profile ev slf s (tr @ [ClockRead, Log INFO]) = (Inr d, tr1)"
      and w: "store_to_gcs ev slf d s ''profile'' tr1 = (Inr p, tr2)"
  proof -
    from w obtain b where b: "uploads tr2 = uploads tr1 @ [(b, True)]"
      "p = ''gs://'' @ bucket_name slf @ ''/'' @ b"
      using store_uploads_ok by blast
    from f have u1: "uploads tr1 = uploads tr"
      using profile_uploads by fastforce
    show ?thesis
      by (cases rule: ingest_paths [of ev slf s tr False])
         (use f w b u1 in \<open>auto simp: succeeded_def\<close>)
  qed
  with calls no_holdings show ?thesis by blast
qed

theorem profile_only_run_witness:
  "get_etf_profile sample_env sample_self ''QQQ'' ([] @ [ClockRead, Log INFO]) =
     (Inr sample_payload, snd (get_etf_profile sample_env sample_self ''QQQ'' [ClockRead, Log INFO]))
   \<and> fst (store_to_gcs sample_env sample_self sample_payload ''QQQ'' ''profile''
        (snd (get_etf_profile sample_env sample_self ''QQQ'' [ClockRead, Log INFO]))) =
       Inr ''gs://etf-bucket/etf_data/profile/QQQ/2024/03/15/QQQ_profile_20240315_093005.json''
   \<and> status (fst (ingest_etf_data sample_env sample_self ''QQQ'' False [])) = Some ''success''
   \<and> files_created (fst (ingest_etf_data sample_env sample_self ''QQQ'' False [])) =
       [''gs://etf-bucket/etf_data/profile/QQQ/2024/03/15/QQQ_profile_20240315_093005.json'']
   \<and> http_calls (snd (ingest_etf_data sample_env sample_self ''QQQ'' False [])) =
       [profile_query sample_self ''QQQ'']"
proof -
  let ?tr1 = "snd (get_etf_profile sample_env sample_self ''QQQ'' [ClockRead, Log INFO])"
  let ?p = "''gs://etf-bucket/etf_data/profile/QQQ/2024/03/15/QQQ_profile_20240315_093005.json''"
  let ?tr2 = "snd (store_to_gcs sample_env sample_self sample_payload ''QQQ'' ''profile'' ?tr1)"
  have a: "get_etf_profile sample_env sample_self ''QQQ'' ([] @ [ClockRead, Log INFO]) =
      (Inr sample_payload, ?tr1)"
    by (simp add: run_defs env_defs)
  have b': "fst (store_to_gcs sample_env sample_self sample_payload ''QQQ'' ''profile'' ?tr1) =
      Inr ?p"
    by (simp add: run_defs env_defs time_defs)
  then have b: "store_to_gcs sample_env sample_self sample_payload ''QQQ'' ''profile'' ?tr1 =
      (Inr ?p, ?tr2)"
    by (simp add: prod_eq_iff)
  from profile_only_run [of sample_env sample_self "''QQQ''" "[]" sample_payload ?tr1 ?p ?tr2] a b b'
  show ?thesis
    by simp
qed

subsection \<open>The storage key\<close>

lemma digit_eq_iff: "digit a = digit b \<longleftrightarrow> a mod 10 = b mod 10"
proof -
  have "(48 + a mod 10) mod 256 = 48 + a mod 10" "(48 + b mod 10) mod 256 = 48 + b mod 10"
    by simp_all
  then show ?thesis
    unfolding digit_def char_of_quasi_inj by simp
qed

lemma two_digits: "n < 100 \<Longrightarrow> n = 10 * (n div 10 mod 10) + n mod 10" for n :: nat
  by simp

lemma pad2_inj: "n < 100 \<Longrightarrow> m < 100 \<Longrightarrow> pad2 n = pad2 m \<Longrightarrow> n = m"
proof -
  assume a: "n < 100" "m < 100" "pad2 n = pad2 m"
  from a(3) have "n div 10 mod 10 = m div 10 mod 10" "n mod 10 = m mod 10"
    by (simp_all add: pad2_def digit_eq_iff)
  with two_digits [OF a(1)] two_digits [OF a(2)] show "n = m"
    by simp
qed

lemma four_digits:
  fixes n :: nat
  assumes "n < 10000"
  shows "n = 1000 * (n div 1000 mod 10) + 100 * (n div 100 mod 10) + 10 * (n div 10 mod 10) + n mod 10"
proof -
  have a: "n = 10 * (n div 10) + n mod 10" by simp
  have "n div 10 div 10 = n div 100" by (simp add: div_mult2_eq [symmetric])
  then have b: "n div 10 = 10 * (n div 100) + n div 10 mod 10"
    using mult_div_mod_eq [of 10 "n div 10"] by simp
  have "n div 100 div 10 = n div 1000" by (simp add: div_mult2_eq [symmetric])
  then have c: "n div 100 = 10 * (n div 1000) + n div 100 mod 10"
    using mult_div_mod_eq [of 10 "n div 100"] by simp
  from assms have d: "n div 1000 mod 10 = n div 1000" by simp
  from a b c d show ?thesis by linarith
qed

lemma pad4_inj:
  assumes "n < 10000" "m < 10000" "pad4 n = pad4 m"
  shows "n = m"
proof -
  from assms(3) have d: "n div 1000 mod 10 = m div 1000 mod 10"
    "n div 100 mod 10 = m div 100 mod 10" "n div 10 mod 10 = m div 10 mod 10"
    "n mod 10 = m mod 10"
    by (simp_all add: pad4_def digit_eq_iff)
  with four_digits [OF assms(1)] four_digits [OF assms(2)] show ?thesis
    by simp
qed

lemma strftime_timestamp_inj:
  assumes "valid_datetime t" "valid_datetime t'"
    and "strftime_timestamp t = strftime_timestamp t'"
  shows "second_level t = second_level t'"
proof -
  from assms(3) have p: "pad4 (year t) = pad4 (year t')" "pad2 (month t) = pad2 (month t')"
    "pad2 (day t) = pad2 (day t')" "pad2 (hour t) = pad2 (hour t')"
    "pad2 (minute t) = pad2 (minute t')" "pad2 (second t) = pad2 (second t')"
    by (simp_all add: strftime_timestamp_def pad2_def pad4_def)
  from assms(1,2) have "year t < 10000" "year t' < 10000"
    by (simp_all add: valid_datetime_def)
  with p(1) have y: "year t = year t'" by (rule pad4_inj [rotated 2])
  from assms(1,2) have "month t < 100" "month t' < 100"
    by (simp_all add: valid_datetime_def)
  with p(2) have mo: "month t = month t'" by (rule pad2_inj [rotated 2])
  from assms(1,2) have "day t < 100" "day t' < 100"
    by (simp_all add: valid_datetime_def)
  with p(3) have d: "day t = day t'" by (rule pad2_inj [rotated 2])
  from assms(1,2) have "hour t < 100" "hour t' < 100"
    by (simp_all add: valid_datetime_def)
  with p(4) have h: "hour t = hour t'" by (rule pad2_inj [rotated 2])
  from assms(1,2) have "minute t < 100" "minute t' < 100"
    by (simp_all add: valid_datetime_def)
  with p(5) have mi: "minute t = minute t'" by (rule pad2_inj [rotated 2])
  from assms(1,2) have "second t < 100" "second t' < 100"
    by (simp_all add: valid_datetime_def)
  with p(6) have se: "second t = second t'" by (rule pad2_inj [rotated 2])
  from y mo d h mi se show ?thesis
    by (simp add: second_level_def)
qed

lemma length_strftime:
  "length (strftime_timestamp t) = 15" "length (strftime_date_path t) = 10"
  by (simp_all add: strftime_timestamp_def strftime_date_path_def pad2_def pad4_def)

lemma blob_name_same_kind_symbol:
  assumes "blob_name_of k s D T = blob_name_of k s D' T'" and "length D = length D'"
  shows "D = D' \<and> T = T'"
proof -
  from assms(1) have "D @ (''/'' @ s @ ''_'' @ k @ ''_'' @ T @ ''.json'') =
      D' @ (''/'' @ s @ ''_'' @ k @ ''_'' @ T' @ ''.json'')"
    by (simp add: blob_name_of_def)
  with append_eq_append_conv [OF disjI1, OF assms(2)]
  have "D = D'" and "''/'' @ s @ ''_'' @ k @ ''_'' @ T @ ''.json'' =
      ''/'' @ s @ ''_'' @ k @ ''_'' @ T' @ ''.json''"
    by blast+
  then show ?thesis by simp
qed

lemma storage_key_timestamp:
  assumes "storage_key k s t = storage_key k s t'"
  shows "strftime_timestamp t = strftime_timestamp t'"
proof -
  have "length (strftime_date_path t) = length (strftime_date_path t')"
    by (simp add: length_strftime)
  with assms blob_name_same_kind_symbol show ?thesis
    unfolding storage_key_def by blast
qed

lemma storage_key_second_level:
  "second_level t = second_level t' \<Longrightarrow> storage_key k s t = storage_key k s t'"
  by (simp add: second_level_def storage_key_def strftime_timestamp_def strftime_date_path_def)

lemma store_uploads_key:
  assumes "clock ev tr = t" "clock ev (tr @ [ClockRead]) = t"
  shows "uploads (snd (store_to_gcs ev slf data s k tr)) =
           uploads tr @ [(storage_key k s t, \<not> isl (fst (store_to_gcs ev slf data s k tr)))]"
    and "\<not> isl (fst (store_to_gcs ev slf data s k tr)) \<Longrightarrow>
         fst (store_to_gcs ev slf data s k tr) =
           Inr (''gs://'' @ bucket_name slf @ ''/'' @ storage_key k s t)"
  using assms
  by (auto simp: store_to_gcs_def Let_def storage_key_def uploads_append split: option.splits)

lemma storage_key_kind:
  assumes "k = ''profile'' \<or> k = ''holdings''" "k' = ''profile'' \<or> k' = ''holdings''"
    and "storage_key k s t = storage_key k' s' t'"
  shows "k = k'"
  using assms by (auto simp: storage_key_def blob_name_of_def)

lemma storage_key_symbol:
  assumes "storage_key k s t = storage_key k s' t'"
  shows "s = s'"
proof -
  let ?D = "strftime_date_path t" and ?D' = "strftime_date_path t'"
  let ?T = "strftime_timestamp t" and ?T' = "strftime_timestamp t'"
  from assms have eq: "s @ (''/'' @ ?D @ ''/'' @ s @ ''_'' @ k @ ''_'' @ ?T @ ''.json'') =
      s' @ (''/'' @ ?D' @ ''/'' @ s' @ ''_'' @ k @ ''_'' @ ?T' @ ''.json'')"
    by (simp add: storage_key_def blob_name_of_def)
  then have "length (s @ (''/'' @ ?D @ ''/'' @ s @ ''_'' @ k @ ''_'' @ ?T @ ''.json'')) =
      length (s' @ (''/'' @ ?D' @ ''/'' @ s' @ ''_'' @ k @ ''_'' @ ?T' @ ''.json''))"
    by (rule arg_cong)
  then have "length s = length s'"
    by (simp add: length_strftime)
  from append_eq_append_conv [OF disjI1, OF this] eq show ?thesis
    by blast
qed

lemma storage_key_path:
  "storage_key k s t =
     ''etf_data/'' @ k @ ''/'' @ s @ ''/'' @
     pad4 (year t) @ ''/'' @ pad2 (month t) @ ''/'' @ pad2 (day t) @ ''/'' @
     s @ ''_'' @ k @ ''_'' @
     pad4 (year t) @ pad2 (month t) @ pad2 (day t) @ ''_'' @
     pad2 (hour t) @ pad2 (minute t) @ pad2 (second t) @ ''.json''"
  by (simp add: storage_key_def blob_name_of_def strftime_timestamp_def strftime_date_path_def)

text \<open>
  Claim C7. Let both clock readings of \<open>store_to_gcs\<close> be \<open>t\<close>, and let the kind be
  \<open>profile\<close> or \<open>holdings\<close>. Then the object name of the upload is
  \<open>storage_key k s t\<close>, which is the path
  \<open>etf_data/<kind>/<symbol>/<YYYY>/<MM>/<DD>/<symbol>_<kind>_<YYYYMMDD>_<HHMMSS>.json\<close>;
  it is the same for two clock readings that agree up to the second; for valid clock
  readings that differ in their second-level part the keys of the same symbol and kind
  differ; and more generally equal keys have the same kind, the same symbol and the same
  second-level timestamp.
\<close>

theorem storage_key_determined_and_unique:
  assumes "clock ev tr = t" and "clock ev (tr @ [ClockRead]) = t"
    and "k = ''profile'' \<or> k = ''holdings''"
  shows "uploads (snd (store_to_gcs ev slf data s k tr)) =
           uploads tr @ [(storage_key k s t, \<not> isl (fst (store_to_gcs ev slf data s k tr)))]
     \<and> storage_key k s t =
          ''etf_data/'' @ k @ ''/'' @ s @ ''/'' @
          pad4 (year t) @ ''/'' @ pad2 (month t) @ ''/'' @ pad2 (day t) @ ''/'' @
          s @ ''_'' @ k @ ''_'' @
          pad4 (year t) @ pad2 (month t) @ pad2 (day t) @ ''_'' @
          pad2 (hour t) @ pad2 (minute t) @ pad2 (second t) @ ''.json''
     \<and> (second_level t' = second_level t \<longrightarrow> storage_key k s t' = storage_key k s t)
     \<and> (valid_datetime t \<and> valid_datetime t' \<and> second_level t' \<noteq> second_level t \<longrightarrow>
          storage_key k s t' \<noteq> storage_key k s t)
     \<and> (valid_datetime t \<and> valid_datetime t' \<and> (k' = ''profile'' \<or> k' = ''holdings'')
          \<and> storage_key k' s' t' = storage_key k s t \<longrightarrow>
          k' = k \<and> s' = s \<and> second_level t' = second_level t)"
proof -
  have inj: "k' = k \<and> s' = s \<and> second_level t' = second_level t"
    if v: "valid_datetime t" "valid_datetime t'" and k': "k' = ''profile'' \<or> k' = ''holdings''"
      and eq: "storage_key k' s' t' = storage_key k s t"
    for k' s' t'
  proof -
    from k' assms(3) eq have kk: "k' = k" by (rule storage_key_kind)
    with eq have ss: "s' = s" using storage_key_symbol by blast
    with kk eq have "strftime_timestamp t' = strftime_timestamp t"
      using storage_key_timestamp by blast
    with v have "second_level t' = second_level t"
      using strftime_timestamp_inj by blast
    with kk ss show ?thesis by simp
  qed
  have "storage_key k s t' \<noteq> storage_key k s t"
    if "valid_datetime t" "valid_datetime t'" "second_level t' \<noteq> second_level t"
    using that inj [of t' k s] assms(3) by blast
  with inj [of t' k' s'] store_uploads_key(1) [OF assms(1,2)] storage_key_path [of k s t]
    storage_key_second_level [of t' t k s]
  show ?thesis
    by blast
qed

theorem storage_key_determined_and_unique_witness:
  "clock sample_env [] = sample_time
   \<and> clock sample_env ([] @ [ClockRead]) = sample_time
   \<and> valid_datetime sample_time \<and> valid_datetime later_time
   \<and> second_level later_time \<noteq> second_level sample_time
   \<and> uploads (snd (store_to_gcs sample_env sample_self sample_payload ''QQQ'' ''profile'' [])) =
       [(''etf_data/profile/QQQ/2024/03/15/QQQ_profile_20240315_093005.json'', True)]
   \<and> storage_key ''profile'' ''QQQ'' later_time \<noteq> storage_key ''profile'' ''QQQ'' sample_time"
proof -
  have a: "clock sample_env [] = sample_time" "clock sample_env ([] @ [ClockRead]) = sample_time"
    by (simp_all add: sample_env_def)
  have k: "''profile'' = ''profile'' \<or> ''profile'' = ''holdings''"
    by simp
  have v: "valid_datetime sample_time" "valid_datetime later_time"
    by (simp_all add: valid_datetime_def sample_time_def later_time_def)
  have d: "second_level later_time \<noteq> second_level sample_time"
    by (simp add: second_level_def sample_time_def later_time_def)
  have key: "storage_key ''profile'' ''QQQ'' sample_time =
      ''etf_data/profile/QQQ/2024/03/15/QQQ_profile_20240315_093005.json''"
    by (simp add: storage_key_def blob_name_of_def time_defs)
  have ok: "\<not> isl (fst (store_to_gcs sample_env sample_self sample_payload ''QQQ'' ''profile'' []))"
    by (simp add: store_to_gcs_def sample_env_def Let_def)
  from storage_key_determined_and_unique [OF a k, of sample_self sample_payload "''QQQ''"
      later_time "''profile''" "''QQQ''"] a v d key ok
  show ?thesis
    by simp
qed

subsection \<open>The HTTP entry point\<close>

text \<open>
  The handler on the requests it validates: another method, a missing or malformed body,
  and a JSON object without a \<open>symbol\<close> are rejected with 405 or 400 and an unchanged
  trace; a JSON object with a non-empty string \<open>symbol\<close> gets the outcome of
  \<open>ingest_etf_data\<close>, with 200 exactly for status \<open>success\<close> and 500 otherwise.
\<close>

lemma handler_rejects_method:
  "req_method req \<noteq> ''POST'' \<Longrightarrow>
   etf_data_ingest ev req tr = Some ((ErrorBody OnlyPost, 405), tr)"
  by (simp add: etf_data_ingest_def)

lemma handler_rejects_missing_body:
  "req_method req = ''POST'' \<Longrightarrow> req_json req = None \<Longrightarrow>
   etf_data_ingest ev req tr = Some ((ErrorBody InvalidJson, 400), tr)"
  by (simp add: etf_data_ingest_def)

lemma handler_rejects_missing_symbol:
  "req_method req = ''POST'' \<Longrightarrow> req_json req = Some (JObj fs) \<Longrightarrow>
   map_of fs ''symbol'' = None \<Longrightarrow>
   etf_data_ingest ev req tr =
     Some ((ErrorBody (if fs = [] then InvalidJson else SymbolRequired), 400), tr)"
  by (simp add: etf_data_ingest_def)

lemma handler_returns_outcome:
  assumes "req_method req = ''POST''" and "req_json req = Some (JObj fs)"
    and "map_of fs ''symbol'' = Some (JStr s)" and "s \<noteq> []"
    and "AlphaVantageETFIngest ev = Inr slf"
    and "ih = (case map_of fs ''include_holdings'' of None \<Rightarrow> True | Some b \<Rightarrow> truthy b)"
  shows "etf_data_ingest ev req tr =
     Some ((OutcomeBody (fst (ingest_etf_data ev slf s ih tr)),
            if status (fst (ingest_etf_data ev slf s ih tr)) = Some ''success''
            then 200 else 500),
           snd (ingest_etf_data ev slf s ih tr))"
proof -
  from assms(3) have "fs \<noteq> []" by auto
  with assms show ?thesis
    by (simp add: etf_data_ingest_def Let_def split: prod.splits)
qed

text \<open>
  Claim C8 fails on the code for a body that is valid JSON but not an object. For the
  request \<open>POST\<close> with the body \<open>["QQQ"]\<close>, which has no \<open>symbol\<close> field, the handler
  calls \<open>.get\<close> on a list; the AttributeError is caught by the handler's own
  \<open>except\<close> clause, and the status code is 500, not 400.
\<close>

theorem non_object_body_is_server_error:
  "etf_data_ingest ev \<lparr>req_method = ''POST'', req_json = Some (JArr [JStr ''QQQ''])\<rparr> tr =
     Some ((FailureBody AttributeError (isoformat (clock ev (tr @ [Log ERROR]))), 500),
           tr @ [Log ERROR, ClockRead])"
  by (simp add: etf_data_ingest_def handler_failure_def Let_def)

subsection \<open>The shape of an outcome\<close>

text \<open>
  Claim C9. For every symbol, every flag and every behaviour of the collaborators, the
  outcome returned by \<open>ingest_etf_data\<close> carries the input symbol; its status is
  \<open>success\<close> or \<open>error\<close>; it has at most two locations, a profile location first and
  a holdings location second; and it has no error message exactly when its status is
  \<open>success\<close>, that is, it has one exactly when its status is \<open>error\<close>.
\<close>

theorem outcome_well_formed:
  "symbol (fst (ingest_etf_data ev slf s ih tr)) = s
   \<and> (status (fst (ingest_etf_data ev slf s ih tr)) = Some ''success''
       \<or> status (fst (ingest_etf_data ev slf s ih tr)) = Some ''error'')
   \<and> length (files_created (fst (ingest_etf_data ev slf s ih tr))) \<le> 2
   \<and> profile_then_holdings slf s (files_created (fst (ingest_etf_data ev slf s ih tr)))
   \<and> ((error_message (fst (ingest_etf_data ev slf s ih tr)) = None) =
        (status (fst (ingest_etf_data ev slf s ih tr)) = Some ''success''))"
  by (cases rule: ingest_paths [of ev slf s tr ih])
     (auto simp: failed_def succeeded_def dest: store_location)

subsection \<open>hello\_http\<close>

text \<open>
  Claim C10. For every request and every behaviour of the network, \<open>hello_http\<close> raises
  NameError for the name \<open>requests\<close>, which the module never binds; it does so before
  any network call (the trace is unchanged), and so it never returns data.
\<close>

theorem hello_http_raises_NameError:
  "hello_http first_cloud_function_globals ev req tr = (Inl (NameError ''requests''), tr)
   \<and> http_calls (snd (hello_http first_cloud_function_globals ev req tr)) = http_calls tr
   \<and> fst (hello_http first_cloud_function_globals ev req tr) \<noteq> Inr data"
  by (simp add: hello_http_def load_global_def first_cloud_function_globals_def)

end
